theory Spec2Isabelle
  imports Complex_Main "HOL-Library.Multiset" "HOL-Library.Char_ord" "HOL-Library.List_Lexorder"
begin

section \<open>JavaScript strings\<close>

text \<open>
  Free text typed by the user (the query and the location of a search) is a JavaScript
  string, that is a sequence of UTF-16 code units, modelled as a list of natural numbers.
  \<open>String.prototype.trim\<close> removes white space and line terminators from both ends: TAB,
  LF, VT, FF, CR, SPACE, NBSP, U+1680, U+2000 to U+200A, U+2028, U+2029, U+202F, U+205F,
  U+3000 and U+FEFF. The values of selects and check boxes and the keys of objects are
  ASCII constants of the source and are written as strings.
\<close>

definition is_ws :: "nat \<Rightarrow> bool" where
  "is_ws u =
     (u \<in> {9, 10, 11, 12, 13, 32, 160, 5760, 8232, 8233, 8239, 8287, 12288, 65279} \<or>
      8192 \<le> u \<and> u \<le> 8202)"

definition trim :: "nat list \<Rightarrow> nat list" where
  "trim s = rev (dropWhile is_ws (rev (dropWhile is_ws s)))"

text \<open>\<open>s || null\<close> for a string \<open>s\<close>: the empty string is falsy.\<close>

definition or_null :: "'a list \<Rightarrow> 'a list option" where
  "or_null s = (if s = [] then None else Some s)"


section \<open>Data model at the pipeline boundary\<close>

text \<open>
  The records the front end receives from \<open>POST /jobs/search\<close> and reads in
  \<open>JobSearchPage\<close>, \<open>JobCard\<close> and \<open>MatchScoreBar\<close>. Scores are JSON numbers; they are
  modelled as exact rationals. A field the code reads with \<open>?.\<close> or tests for truthiness
  is optional.
\<close>

record location_info =
  city :: "string option"
  state :: "string option"
  country :: "string option"
  remote :: bool

record job =
  job_id :: string
  title :: string
  company :: string
  location :: "location_info option"
  source :: "string option"
  level :: "string option"
  url :: "string option"
  posted_at :: "int option"

record relevance_score =
  overall_score :: rat
  skills_score :: "rat option"
  experience_score :: "rat option"
  location_score :: "rat option"
  salary_score :: "rat option"
  level_score :: "rat option"
  matching_skills :: "string list"
  missing_skills :: "string list"

record job_match =
  job :: job
  score :: relevance_score

record search_results =
  matches :: "job_match list"
  total_fetched :: int
  total_matched :: int


section \<open>SearchForm\<close>

text \<open>
  The component state (one field per \<open>useState\<close>) and the payload handed to \<open>onSearch\<close>.
  The payload keeps the keys of the source; the state variables \<open>query\<close>, \<open>location\<close> and
  \<open>sources\<close> carry the prefix \<open>st_\<close> because the payload has keys of the same name.
\<close>

record search_form =
  st_query :: "nat list"
  st_location :: "nat list"
  st_sources :: "string list"
  minScore :: rat
  experienceLevel :: string
  employmentType :: string
  datePosted :: string
  remoteOnly :: bool

record search_params =
  query :: "nat list"
  location_param :: "nat list option"
  sources :: "string list"
  min_score :: rat
  experience_level :: "string option"
  employment_type :: "string option"
  date_posted :: "string option"
  remote_only :: bool

text \<open>The initial values of the \<open>useState\<close> calls.\<close>

definition SearchForm_init :: search_form where
  "SearchForm_init =
     \<lparr>st_query = [], st_location = [], st_sources = [''jsearch''], minScore = 3 / 10,
      experienceLevel = '''', employmentType = '''', datePosted = ''all'', remoteOnly = False\<rparr>"

text \<open>The options of the Date Posted select, as (value, label) pairs.\<close>

definition datePosted_options :: "(string \<times> string) list" where
  "datePosted_options =
     [(''all'', ''Any Time''), (''today'', ''Today''), (''3days'', ''Last 3 Days''),
      (''week'', ''Last Week''), (''month'', ''Last Month'')]"

text \<open>
  \<open>handleSubmit\<close>: \<open>None\<close> is the early return (nothing is invoked), \<open>Some p\<close> is the call
  \<open>onSearch(p)\<close>.
\<close>

definition handleSubmit :: "search_form \<Rightarrow> search_params option" where
  "handleSubmit st =
     (if trim (st_query st) = [] then None
      else Some
        \<lparr>query = trim (st_query st),
         location_param = or_null (trim (st_location st)),
         sources = st_sources st,
         min_score = minScore st,
         experience_level = or_null (experienceLevel st),
         employment_type = or_null (employmentType st),
         date_posted = (if datePosted st \<noteq> ''all'' then Some (datePosted st) else None),
         remote_only = remoteOnly st\<rparr>)"

definition toggleSource :: "string \<Rightarrow> search_form \<Rightarrow> search_form" where
  "toggleSource src st =
     st\<lparr>st_sources :=
          (if src \<in> set (st_sources st) then filter (\<lambda>s. s \<noteq> src) (st_sources st)
           else st_sources st @ [src])\<rparr>"

text \<open>The submit button is disabled while loading or while the trimmed query is empty.\<close>

definition submit_disabled :: "bool \<Rightarrow> search_form \<Rightarrow> bool" where
  "submit_disabled loading st = (loading \<or> trim (st_query st) = [])"


section \<open>JobSearchPage\<close>

text \<open>
  The page state (\<open>results\<close>, \<open>loading\<close>, \<open>error\<close>) and the two halves of \<open>handleSearch\<close>:
  what it does before awaiting \<open>jobsApi.search\<close> and what it does with the reply. The
  response body is a JSON object that may carry fields the page does not know, so the page
  is defined on the extensible record.
\<close>

datatype 'r api_reply = Ok 'r | Failed "string option"

record 'r search_page =
  results :: "'r option"
  loading :: bool
  error_msg :: "string option"

definition JobSearchPage_init :: "'r search_page" where
  "JobSearchPage_init = \<lparr>results = None, loading = False, error_msg = None\<rparr>"

definition handleSearch_begin :: "'r search_page \<Rightarrow> 'r search_page" where
  "handleSearch_begin pg = pg\<lparr>loading := True, error_msg := None, results := None\<rparr>"

text \<open>\<open>Failed d\<close> is a rejected request, \<open>d\<close> being \<open>err.response?.data?.detail\<close>.\<close>

definition handleSearch_end :: "'r api_reply \<Rightarrow> 'r search_page \<Rightarrow> 'r search_page" where
  "handleSearch_end reply pg =
     (case reply of
        Ok r \<Rightarrow> pg\<lparr>results := Some r\<rparr>
      | Failed d \<Rightarrow>
          pg\<lparr>error_msg := Some (case d of
                  None \<Rightarrow> ''Search failed. Make sure you have a profile set up.''
                | Some m \<Rightarrow> if m = [] then ''Search failed. Make sure you have a profile set up.''
                            else m)\<rparr>)
     \<lparr>loading := False\<rparr>"

definition handleSearch :: "'r api_reply \<Rightarrow> 'r search_page \<Rightarrow> 'r search_page" where
  "handleSearch reply pg = handleSearch_end reply (handleSearch_begin pg)"

text \<open>
  What the page renders for \<open>results\<close>: nothing while it is \<open>null\<close>; otherwise the two
  counts and either the notice for an empty list or one \<open>JobCard\<close> per match, each with
  its React key \<open>match.job.job_id\<close> and its \<open>match\<close> prop.
\<close>

datatype results_body = NoMatches | Cards "(string \<times> job_match) list"

record results_view =
  found :: int
  matched :: int
  body :: results_body

definition results_section :: "'a search_results_scheme option \<Rightarrow> results_view option" where
  "results_section res =
     (case res of
        None \<Rightarrow> None
      | Some r \<Rightarrow>
          Some \<lparr>found = total_fetched r, matched = total_matched r,
                body = (if length (matches r) = 0 then NoMatches
                        else Cards (map (\<lambda>m. (job_id (job m), m)) (matches r)))\<rparr>)"

text \<open>The matches shown by a body, top to bottom.\<close>

fun shown :: "results_body \<Rightarrow> job_match list" where
  "shown NoMatches = []"
| "shown (Cards cs) = map snd cs"

text \<open>The React keys of the cards, top to bottom.\<close>

fun card_keys :: "results_body \<Rightarrow> string list" where
  "card_keys NoMatches = []"
| "card_keys (Cards cs) = map fst cs"


section \<open>Minimum-score filter\<close>

text \<open>
  Modelled from the spec: the minimum-score filter of the pipeline, which runs in the back
  end and is not among the sources. It ``excludes any job whose associated
  \<open>RelevanceScore.overall_score\<close> is below a configured threshold (default 0.0, i.e. no-op
  unless set)''. The configuration is \<open>None\<close> when no threshold is set.
\<close>

definition minimum_score_filter :: "rat option \<Rightarrow> job_match list \<Rightarrow> job_match list" where
  "minimum_score_filter configured ms =
     (let threshold = (case configured of None \<Rightarrow> 0 | Some t \<Rightarrow> t)
      in filter (\<lambda>m. \<not> overall_score (score m) < threshold) ms)"

text \<open>A match for a job with the given id and overall score and no other data.\<close>

definition bare_match :: "string \<Rightarrow> rat \<Rightarrow> int option \<Rightarrow> job_match" where
  "bare_match i s t =
     \<lparr>job = \<lparr>job_id = i, title = '''', company = '''', location = None, source = None,
              level = None, url = None, posted_at = t\<rparr>,
      score = \<lparr>overall_score = s, skills_score = None, experience_score = None,
                location_score = None, salary_score = None, level_score = None,
                matching_skills = [], missing_skills = []\<rparr>\<rparr>"


section \<open>Application statuses\<close>

text \<open>\<open>ApplicationsPage\<close>: the filter tabs and the options of each row's status select.\<close>

definition STATUSES :: "string list" where
  "STATUSES = [''all'', ''pending'', ''interview'', ''offer'', ''accepted'', ''rejected'',
     ''withdrawn'']"

definition VALID_STATUSES :: "string list" where
  "VALID_STATUSES = [''pending'', ''interview'', ''offer'', ''accepted'', ''rejected'',
     ''withdrawn'']"

text \<open>
  \<open>handleStatusChange\<close> sends \<open>PATCH /applications/id\<close> with body \<open>{status: newStatus}\<close>;
  \<open>newStatus\<close> is the value of the option chosen in the select, so the requests the page
  can send are these.
\<close>

record status_update =
  application_id :: nat
  new_status :: string

definition handleStatusChange :: "nat \<Rightarrow> string \<Rightarrow> status_update" where
  "handleStatusChange applicationId newStatus =
     \<lparr>application_id = applicationId, new_status = newStatus\<rparr>"

definition status_updates :: "nat \<Rightarrow> status_update list" where
  "status_updates applicationId = map (handleStatusChange applicationId) VALID_STATUSES"


section \<open>StatusBadge\<close>

text \<open>
  \<open>statusStyles\<close> is an object literal, so \<open>statusStyles[status]\<close> is a property read on an
  ordinary object: an own property if there is one, otherwise the property inherited from
  \<open>Object.prototype\<close>, otherwise \<open>undefined\<close>. The inherited members are functions (and,
  for \<open>__proto__\<close>, the prototype object itself); all of them are truthy.
\<close>

datatype js_prop = Undefined | StrVal string | Inherited string

fun truthy :: "js_prop \<Rightarrow> bool" where
  "truthy Undefined = False"
| "truthy (StrVal s) = (s \<noteq> [])"
| "truthy (Inherited k) = True"

definition Object_prototype_keys :: "string list" where
  "Object_prototype_keys =
     [''constructor'', ''toString'', ''toLocaleString'', ''valueOf'', ''hasOwnProperty'',
      ''isPrototypeOf'', ''propertyIsEnumerable'', ''__proto__'', ''__defineGetter__'',
      ''__defineSetter__'', ''__lookupGetter__'', ''__lookupSetter__'']"

definition get_prop :: "(string \<times> string) list \<Rightarrow> string \<Rightarrow> js_prop" where
  "get_prop obj k =
     (case map_of obj k of
        Some v \<Rightarrow> StrVal v
      | None \<Rightarrow> if k \<in> set Object_prototype_keys then Inherited k else Undefined)"

definition statusStyles :: "(string \<times> string) list" where
  "statusStyles =
     [(''pending'', ''bg-gray-100 text-gray-700''),
      (''interview'', ''bg-blue-100 text-blue-700''),
      (''offer'', ''bg-green-100 text-green-700''),
      (''accepted'', ''bg-emerald-100 text-emerald-700''),
      (''rejected'', ''bg-red-100 text-red-700''),
      (''withdrawn'', ''bg-yellow-100 text-yellow-700'')]"

text \<open>
  The rendered \<open>span\<close>: the value interpolated at the end of its class name and its text.
  Interpolating a string, a function or an object into a template literal never throws
  here, so the component always returns an element.
\<close>

record badge =
  style :: js_prop
  label :: string

definition StatusBadge :: "string \<Rightarrow> badge" where
  "StatusBadge status =
     \<lparr>style = (let v = get_prop statusStyles status
               in if truthy v then v else get_prop statusStyles ''pending''),
      label = status\<rparr>"


section \<open>JavaScript numbers\<close>


text \<open>
  A form field that holds either the text of an input or a number loaded from the API.
  \<open>field_truthy\<close> is its truthiness and \<open>Number_of\<close> is \<open>Number(v)\<close>.
\<close>

datatype field_value = Typed string | Loaded rat






section \<open>ProfilePage\<close>

text \<open>
  The form state and the payload of \<open>handleSave\<close> have the same keys; they differ in the type
  of the salary bounds and of the entries of \<open>work_experience\<close> and \<open>education\<close>, so one
  record with type parameters serves both. Dates are strings in the form and strings or
  \<open>null\<close> in the payload and in the API's data. The form key \<open>location\<close> is \<open>home_location\<close>
  here and the entries' keys carry a prefix, since record fields share one name space.
\<close>

record 'd work_entry =
  w_company :: string
  w_position :: string
  start_date :: 'd
  end_date :: 'd
  w_description :: string
  w_skills :: "string list"
  is_current :: bool

record ('d, 'g) education_entry =
  institution :: string
  degree :: string
  e_field :: string
  graduation_date :: 'd
  gpa :: 'g
  honors :: string

record ('s, 'd, 'g) profile_fields =
  full_name :: string
  email :: string
  phone :: string
  summary :: string
  home_location :: location_info
  skills :: "string list"
  work_experience :: "'d work_entry list"
  education :: "('d, 'g) education_entry list"
  certifications :: "string list"
  preferred_job_levels :: "string list"
  preferred_locations :: "location_info list"
  preferred_salary_min :: 's
  preferred_salary_max :: 's
  remote_preference :: string
  willing_to_relocate :: bool

type_synonym profile_form = "(field_value, string, field_value) profile_fields"



definition EMPTY_LOC :: location_info where
  "EMPTY_LOC = \<lparr>city = Some [], state = Some [], country = Some [], remote = False\<rparr>"

text \<open>The initial value of the \<open>form\<close> state.\<close>

definition form_init :: profile_form where
  "form_init =
     \<lparr>full_name = [], email = [], phone = [], summary = [], home_location = EMPTY_LOC,
      skills = [], work_experience = [], education = [], certifications = [],
      preferred_job_levels = [], preferred_locations = [],
      preferred_salary_min = Typed [], preferred_salary_max = Typed [],
      remote_preference = ''flexible'', willing_to_relocate = False\<rparr>"














definition job_levels :: "string list" where
  "job_levels = [''entry'', ''junior'', ''mid'', ''senior'', ''lead'', ''executive'']"


text \<open>
  The \<open>onChange\<close> handler of the check box of a level, with \<open>e.target.checked\<close> as its
  second argument.
\<close>

definition level_onChange :: "string \<Rightarrow> bool \<Rightarrow> profile_form \<Rightarrow> profile_form" where
  "level_onChange lv checked form =
     (if checked then form\<lparr>preferred_job_levels := preferred_job_levels form @ [lv]\<rparr>
      else form\<lparr>preferred_job_levels := filter (\<lambda>l. l \<noteq> lv) (preferred_job_levels form)\<rparr>)"

text \<open>
  The check box is controlled: it shows \<open>form.preferred_job_levels.includes(level)\<close>, and
  a click fires \<open>onChange\<close> with the opposite of what it shows. Checking and unchecking a
  level in the editor is this operation.
\<close>

definition level_click :: "string \<Rightarrow> profile_form \<Rightarrow> profile_form" where
  "level_click lv form = level_onChange lv (lv \<notin> set (preferred_job_levels form)) form"







section \<open>Ranker\<close>

text \<open>
  The final ranking of the pipeline runs in the back end and is not among the sources; the
  definitions of this section are written from the spec, which has it ``sort survivors by
  \<open>overall_score\<close> descending, ties broken by \<open>posted_at\<close> descending (newer first), final
  ties broken by job id ascending for determinism'' and then ``truncate to the requested
  \<open>max_results\<close>''.
\<close>

text \<open>
  Modelled from the spec: ``newer first'' on the optional time stamp \<open>posted_at\<close>. The
  spec does not place a job without \<open>posted_at\<close>; here it counts as older than every
  dated job.
\<close>

fun newer :: "int option \<Rightarrow> int option \<Rightarrow> bool" where
  "newer (Some s) (Some t) = (t < s)"
| "newer (Some s) None = True"
| "newer None t = False"

text \<open>
  Modelled from the spec: the order of the ranking, \<open>a\<close> at or before \<open>b\<close>: a higher
  overall score first, then the newer job, then the smaller job id (ids are compared as
  strings, character by character).
\<close>

definition ranks_before :: "job_match \<Rightarrow> job_match \<Rightarrow> bool" where
  "ranks_before a b =
     (overall_score (score b) < overall_score (score a) \<or>
      overall_score (score a) = overall_score (score b) \<and>
        (newer (posted_at (job a)) (posted_at (job b)) \<or>
         posted_at (job a) = posted_at (job b) \<and> job_id (job a) \<le> job_id (job b)))"

text \<open>Modelled from the spec: the sort, by insertion of each match into a ranked list.\<close>

fun insert_ranked :: "job_match \<Rightarrow> job_match list \<Rightarrow> job_match list" where
  "insert_ranked m [] = [m]"
| "insert_ranked m (x # xs) =
     (if ranks_before m x then m # x # xs else x # insert_ranked m xs)"

text \<open>Modelled from the spec: ``sort survivors'', all of them.\<close>

definition sort_ranked :: "job_match list \<Rightarrow> job_match list" where
  "sort_ranked ms = foldr insert_ranked ms []"

text \<open>Modelled from the spec: sort the survivors, then keep the first \<open>max_results\<close>.\<close>

definition rank :: "nat \<Rightarrow> job_match list \<Rightarrow> job_match list" where
  "rank max_results survivors = take max_results (sort_ranked survivors)"


section \<open>Aggregation of the overall score\<close>

text \<open>
  The aggregator runs in the back end and is not among the sources; the definitions of
  this section are written from the spec, which has the overall score as ``a weighted sum
  of present dimension scores normalized by the sum of weights of dimensions that were
  computable (a dimension with insufficient data is excluded from both numerator and
  denominator, never treated as zero)''.
\<close>

text \<open>
  Modelled from the spec: the five dimensions. A dimension score is a number or undefined
  (not computable); the weights map each dimension to a number.
\<close>

datatype dimension = Skills | Experience | Location | Salary | Level

definition dimensions :: "dimension list" where
  "dimensions = [Skills, Experience, Location, Salary, Level]"

type_synonym weights = "dimension \<Rightarrow> rat"

type_synonym dimension_scores = "dimension \<Rightarrow> rat option"

text \<open>
  Modelled from the spec: one pass over the dimensions that adds \<open>weight * score\<close> to the
  numerator and \<open>weight\<close> to the denominator for each computable dimension.
\<close>

fun weigh :: "weights \<Rightarrow> dimension_scores \<Rightarrow> dimension list \<Rightarrow> rat \<times> rat \<Rightarrow> rat \<times> rat" where
  "weigh w sc [] acc = acc"
| "weigh w sc (d # ds) (num, den) =
     (case sc d of
        None \<Rightarrow> weigh w sc ds (num, den)
      | Some s \<Rightarrow> weigh w sc ds (num + w d * s, den + w d))"

text \<open>
  Modelled from the spec: the score record that aggregation produces. When the weights of
  the computable dimensions sum to zero the spec gives no value for the overall score, and
  no record is produced (\<open>None\<close>).
\<close>

definition aggregate ::
  "weights \<Rightarrow> dimension_scores \<Rightarrow> string list \<Rightarrow> string list \<Rightarrow> relevance_score option" where
  "aggregate w sc matching missing =
     (case weigh w sc dimensions (0, 0) of
        (num, den) \<Rightarrow>
          if den = 0 then None
          else Some
            \<lparr>overall_score = num / den, skills_score = sc Skills,
             experience_score = sc Experience, location_score = sc Location,
             salary_score = sc Salary, level_score = sc Level,
             matching_skills = matching, missing_skills = missing\<rparr>)"

text \<open>The computable dimensions with their scores, in the order of \<open>dimensions\<close>.\<close>

definition computable :: "dimension_scores \<Rightarrow> (dimension \<times> rat) list" where
  "computable sc = List.map_filter (\<lambda>d. map_option (Pair d) (sc d)) dimensions"


section \<open>Helper lemmas\<close>

lemma dropWhile_rev_last:
  "dropWhile P (rev xs) \<noteq> [] \<Longrightarrow> \<not> P (last (rev (dropWhile P (rev xs))))"
proof -
  assume ne: "dropWhile P (rev xs) \<noteq> []"
  then have "\<not> P (hd (dropWhile P (rev xs)))"
    by (rule hd_dropWhile)
  with ne show ?thesis
    by (simp add: last_rev)
qed

lemma trim_hd: "trim s \<noteq> [] \<Longrightarrow> \<not> is_ws (hd (trim s))"
proof -
  assume ne: "trim s \<noteq> []"
  let ?d = "dropWhile is_ws s"
  have d_ne: "?d \<noteq> []"
  proof
    assume e: "?d = []"
    have "trim s = rev (dropWhile is_ws (rev ?d))"
      by (simp only: trim_def)
    also have "\<dots> = []"
      by (simp only: e rev.simps dropWhile.simps)
    finally show False
      using ne by simp
  qed
  then have h: "\<not> is_ws (hd ?d)"
    by (rule hd_dropWhile)
  from d_ne obtain x ys where d: "?d = x # ys"
    by (cases ?d) auto
  with h have nx: "\<not> is_ws x"
    by simp
  have "dropWhile is_ws (rev ys @ [x]) = dropWhile is_ws (rev ys) @ [x]"
    using nx by (simp add: dropWhile_append3)
  then have "trim s = x # rev (dropWhile is_ws (rev ys))"
    by (simp add: trim_def d)
  with nx show ?thesis
    by simp
qed

lemma trim_last: "trim s \<noteq> [] \<Longrightarrow> \<not> is_ws (last (trim s))"
  unfolding trim_def using dropWhile_rev_last [of is_ws "dropWhile is_ws s"] by simp

lemma trim_empty_iff: "(trim s = []) = list_all is_ws s"
proof -
  let ?d = "dropWhile is_ws s"
  have "(trim s = []) = (\<forall>x \<in> set ?d. is_ws x)"
    by (simp add: trim_def dropWhile_eq_Nil_conv)
  also have "\<dots> = (?d = [])"
  proof
    assume all: "\<forall>x \<in> set ?d. is_ws x"
    show "?d = []"
    proof (rule ccontr)
      assume ne: "?d \<noteq> []"
      then have "\<not> is_ws (hd ?d)"
        by (rule hd_dropWhile)
      moreover from ne have "hd ?d \<in> set ?d"
        by (rule hd_in_set)
      ultimately show False
        using all by blast
    qed
  next
    assume e: "?d = []"
    show "\<forall>x \<in> set ?d. is_ws x"
      by (metis e empty_iff empty_set)
  qed
  also have "\<dots> = list_all is_ws s"
    by (simp add: dropWhile_eq_Nil_conv list_all_iff)
  finally show ?thesis .
qed

lemma trim_decomp:
  "s = takeWhile is_ws s @ trim s @ rev (takeWhile is_ws (rev (dropWhile is_ws s)))"
proof -
  let ?d = "dropWhile is_ws s"
  have "?d = rev (dropWhile is_ws (rev ?d)) @ rev (takeWhile is_ws (rev ?d))"
    by (metis rev_append rev_rev_ident takeWhile_dropWhile_id)
  then have "?d = trim s @ rev (takeWhile is_ws (rev ?d))"
    by (simp only: trim_def)
  moreover have "s = takeWhile is_ws s @ ?d"
    by simp
  ultimately show ?thesis
    by metis
qed

lemma trim_cut:
  "\<exists>l r. s = l @ trim s @ r \<and> list_all is_ws l \<and> list_all is_ws r"
proof -
  have "list_all is_ws (takeWhile is_ws s)"
    by (simp add: list_all_iff) (meson set_takeWhileD)
  moreover have "list_all is_ws (rev (takeWhile is_ws (rev (dropWhile is_ws s))))"
    by (simp add: list_all_iff) (meson set_takeWhileD)
  ultimately show ?thesis
    using trim_decomp [of s] by blast
qed


section \<open>SearchForm: the submitted payload\<close>

text \<open>
  C9. Whenever \<open>handleSubmit\<close> calls \<open>onSearch\<close>, the payload's query is not empty and has
  no white space at either end, and it is the form's query with white space removed from
  both ends; its location is \<open>null\<close> when the form's location is empty or only white
  space, and otherwise the form's location with white space removed from both ends, not
  empty and with none left at either end; its \<open>date_posted\<close> is \<open>null\<close> exactly when the
  selected option is the one labelled Any Time. When the query is empty or only white
  space, \<open>onSearch\<close> is not called.
\<close>

theorem handleSubmit_payload:
  "(case handleSubmit st of
      None \<Rightarrow> list_all is_ws (st_query st)
    | Some p \<Rightarrow>
        \<not> list_all is_ws (st_query st) \<and>
        query p \<noteq> [] \<and> \<not> is_ws (hd (query p)) \<and> \<not> is_ws (last (query p)) \<and>
        (\<exists>l r. st_query st = l @ query p @ r \<and> list_all is_ws l \<and> list_all is_ws r) \<and>
        (case location_param p of
           None \<Rightarrow> list_all is_ws (st_location st)
         | Some loc \<Rightarrow>
             loc \<noteq> [] \<and> \<not> is_ws (hd loc) \<and> \<not> is_ws (last loc) \<and>
             (\<exists>l r. st_location st = l @ loc @ r \<and> list_all is_ws l \<and> list_all is_ws r)) \<and>
        ((date_posted p = None) =
           (map_of datePosted_options (datePosted st) = Some ''Any Time'')))"
proof (cases "trim (st_query st) = []")
  case True
  then show ?thesis
    by (simp add: handleSubmit_def trim_empty_iff)
next
  case False
  let ?q = "trim (st_query st)" and ?loc = "trim (st_location st)"
  have q: "\<not> list_all is_ws (st_query st)" "\<not> is_ws (hd ?q)" "\<not> is_ws (last ?q)"
    using False trim_empty_iff [of "st_query st"] trim_hd [of "st_query st"]
      trim_last [of "st_query st"] by simp_all
  have qc: "\<exists>l r. st_query st = l @ ?q @ r \<and> list_all is_ws l \<and> list_all is_ws r"
    by (rule trim_cut)
  have loc: "case or_null ?loc of
       None \<Rightarrow> list_all is_ws (st_location st)
     | Some loc \<Rightarrow>
         loc \<noteq> [] \<and> \<not> is_ws (hd loc) \<and> \<not> is_ws (last loc) \<and>
         (\<exists>l r. st_location st = l @ loc @ r \<and> list_all is_ws l \<and> list_all is_ws r)"
  proof (cases "?loc = []")
    case True
    then show ?thesis
      by (simp add: or_null_def trim_empty_iff)
  next
    case False
    then show ?thesis
      using trim_hd [of "st_location st"] trim_last [of "st_location st"]
        trim_cut [of "st_location st"] by (simp add: or_null_def)
  qed
  have dp: "(datePosted st = ''all'') =
      (map_of datePosted_options (datePosted st) = Some ''Any Time'')"
    by (simp add: datePosted_options_def)
  from False q qc loc dp show ?thesis
    by (simp add: handleSubmit_def)
qed

theorem handleSubmit_payload_witness:
  "handleSubmit (SearchForm_init\<lparr>st_query := [32, 8195, 9]\<rparr>) = None \<and>
   map_option (\<lambda>p. (query p, location_param p, date_posted p))
     (handleSubmit (SearchForm_init\<lparr>st_query := [32, 112, 121, 32, 100, 101, 118, 160],
        st_location := [12288, 32], datePosted := ''week''\<rparr>)) =
     Some ([112, 121, 32, 100, 101, 118], None, Some ''week'')"
  using handleSubmit_payload [of "SearchForm_init\<lparr>st_query := [32, 8195, 9]\<rparr>"]
    handleSubmit_payload [of "SearchForm_init\<lparr>st_query := [32, 112, 121, 32, 100, 101, 118, 160],
        st_location := [12288, 32], datePosted := ''week''\<rparr>"]
  by (simp add: handleSubmit_def SearchForm_init_def trim_def is_ws_def or_null_def)


section \<open>JobSearchPage: the result of a search\<close>

text \<open>
  C1. After a search that completed with the response body \<open>r\<close>, the page renders from
  the three fields \<open>matches\<close>, \<open>total_fetched\<close> and \<open>total_matched\<close> of \<open>r\<close> and from nothing
  else in it: it shows the two counts and one card per match, in the order of \<open>matches\<close>,
  keyed by the job ids.
\<close>

theorem search_page_reads_results:
  "results_section (results (handleSearch (Ok r) pg)) =
     results_section (Some \<lparr>matches = matches r, total_fetched = total_fetched r,
                             total_matched = total_matched r\<rparr>) \<and>
   map_option found (results_section (results (handleSearch (Ok r) pg))) =
     Some (total_fetched r) \<and>
   map_option matched (results_section (results (handleSearch (Ok r) pg))) =
     Some (total_matched r) \<and>
   map_option (\<lambda>v. shown (body v)) (results_section (results (handleSearch (Ok r) pg))) =
     Some (matches r) \<and>
   map_option (\<lambda>v. card_keys (body v)) (results_section (results (handleSearch (Ok r) pg))) =
     Some (map (\<lambda>m. job_id (job m)) (matches r))"
  by (simp add: handleSearch_def handleSearch_begin_def handleSearch_end_def
      results_section_def comp_def)


section \<open>The minimum-score threshold\<close>

text \<open>
  The search form always sends its threshold, which starts at 0.3, so a search made from
  the form never leaves the threshold unset.
\<close>

lemma SearchForm_sends_min_score:
  "handleSubmit st = Some p \<Longrightarrow> min_score p = minScore st"
  by (auto simp: handleSubmit_def split: if_splits)

lemma SearchForm_initial_min_score: "minScore SearchForm_init = 3 / 10"
  by (simp add: SearchForm_init_def)

text \<open>
  C5. With no threshold configured the minimum-score filter uses 0.0 and excludes no job
  whose overall score is not negative, as every overall score is. It stays without effect
  for a configured threshold that is not positive, and a configured positive threshold
  does exclude a job that scores 0.
\<close>

theorem minimum_score_default:
  "minimum_score_filter None ms = minimum_score_filter (Some 0) ms \<and>
   ((\<forall>m \<in> set ms. 0 \<le> overall_score (score m)) \<longrightarrow> minimum_score_filter None ms = ms) \<and>
   (t \<le> 0 \<and> (\<forall>m \<in> set ms. 0 \<le> overall_score (score m)) \<longrightarrow>
      minimum_score_filter (Some t) ms = ms) \<and>
   (0 < t \<longrightarrow> minimum_score_filter (Some t) [bare_match i 0 posted] = [])"
  by (auto simp: minimum_score_filter_def bare_match_def not_less filter_id_conv)

theorem minimum_score_default_witness:
  "list_all (\<lambda>m. 0 \<le> overall_score (score m))
     [bare_match ''j0'' 0 None, bare_match ''j1'' (1 / 5) None, bare_match ''j2'' 1 None] \<and>
   minimum_score_filter None
     [bare_match ''j0'' 0 None, bare_match ''j1'' (1 / 5) None, bare_match ''j2'' 1 None] =
     [bare_match ''j0'' 0 None, bare_match ''j1'' (1 / 5) None, bare_match ''j2'' 1 None] \<and>
   (0::rat) < 3 / 10 \<and>
   minimum_score_filter (Some (3 / 10)) [bare_match ''j0'' 0 None] = []"
  using minimum_score_default [of
      "[bare_match ''j0'' 0 None, bare_match ''j1'' (1 / 5) None, bare_match ''j2'' 1 None]"
      "3 / 10" "''j0''" None]
  by (simp add: bare_match_def minimum_score_filter_def)


section \<open>Application statuses in the front end\<close>

text \<open>
  C2. The status \<open>applied\<close> is in none of the front end's tables: the status select does not
  offer it, no request of the page sets it, the filter tabs lack it and the badge has no
  style for it. The select offers the other six.
\<close>

theorem applied_not_offered:
  "''applied'' \<notin> set VALID_STATUSES \<and> ''applied'' \<notin> set STATUSES \<and>
   map_of statusStyles ''applied'' = None \<and>
   set VALID_STATUSES =
     {''pending'', ''interview'', ''offer'', ''accepted'', ''rejected'', ''withdrawn''} \<and>
   ''applied'' \<notin> new_status ` set (status_updates i)"
  by (simp add: VALID_STATUSES_def STATUSES_def statusStyles_def status_updates_def
      handleStatusChange_def)


section \<open>StatusBadge: the fallback style\<close>

text \<open>
  A status with no entry in the table gets the style of \<open>pending\<close>, unless it names a
  member of \<open>Object.prototype\<close>.
\<close>

lemma StatusBadge_fallback:
  "map_of statusStyles status = None \<Longrightarrow> status \<notin> set Object_prototype_keys \<Longrightarrow>
   style (StatusBadge status) = StrVal ''bg-gray-100 text-gray-700''"
  by (simp add: StatusBadge_def get_prop_def) (simp add: statusStyles_def)

lemma StatusBadge_applied:
  "style (StatusBadge ''applied'') = StrVal ''bg-gray-100 text-gray-700''"
  by (simp add: StatusBadge_def get_prop_def statusStyles_def Object_prototype_keys_def)

lemma StatusBadge_label: "label (StatusBadge status) = status"
  by (simp add: StatusBadge_def)

text \<open>
  C10. The status \<open>constructor\<close> has no entry in the style table, yet the badge does not
  fall back to the style of \<open>pending\<close>: the property read finds the inherited
  \<open>Object.prototype.constructor\<close>, which is truthy, and the class name is built from it.
\<close>

theorem StatusBadge_constructor:
  "map_of statusStyles ''constructor'' = None \<and>
   style (StatusBadge ''constructor'') = Inherited ''constructor'' \<and>
   style (StatusBadge ''constructor'') \<noteq> style (StatusBadge ''pending'')"
  by (simp add: StatusBadge_def get_prop_def statusStyles_def Object_prototype_keys_def)

section \<open>ProfilePage: what is saved\<close>



section \<open>ProfilePage: the remote preference\<close>







section \<open>ProfilePage: the preferred job levels\<close>

lemma level_click_levels:
  "preferred_job_levels (level_click lv form) =
     (if lv \<in> set (preferred_job_levels form) then filter (\<lambda>l. l \<noteq> lv) (preferred_job_levels form)
      else preferred_job_levels form @ [lv])"
  by (simp add: level_click_def level_onChange_def)

lemma fold_level_click_ok:
  "distinct (preferred_job_levels form) \<Longrightarrow> set (preferred_job_levels form) \<subseteq> set job_levels \<Longrightarrow>
   set clicks \<subseteq> set job_levels \<Longrightarrow>
   distinct (preferred_job_levels (fold level_click clicks form)) \<and>
   set (preferred_job_levels (fold level_click clicks form)) \<subseteq> set job_levels"
proof (induction clicks arbitrary: form)
  case Nil
  then show ?case by simp
next
  case (Cons lv clicks)
  have "distinct (preferred_job_levels (level_click lv form))"
    using Cons.prems(1) by (simp add: level_click_levels)
  moreover have "set (preferred_job_levels (level_click lv form)) \<subseteq> set job_levels"
    using Cons.prems(2,3) by (auto simp: level_click_levels)
  ultimately show ?case
    using Cons.IH [of "level_click lv form"] Cons.prems(3) by simp
qed

text \<open>
  C8. Starting from a duplicate-free list of levels among the six, any sequence of clicks
  on the level check boxes leaves a duplicate-free list of levels among the six. Checking
  a level (a click while it is absent) appends it; unchecking it (a click while it is
  present) removes every occurrence.
\<close>

theorem job_levels_invariant:
  assumes "distinct (preferred_job_levels form)"
      and "set (preferred_job_levels form) \<subseteq> set job_levels"
      and "set clicks \<subseteq> set job_levels"
  shows "distinct (preferred_job_levels (fold level_click clicks form)) \<and>
         set (preferred_job_levels (fold level_click clicks form)) \<subseteq> set job_levels \<and>
         (lv \<notin> set (preferred_job_levels form) \<longrightarrow>
            preferred_job_levels (level_click lv form) = preferred_job_levels form @ [lv]) \<and>
         (lv \<in> set (preferred_job_levels form) \<longrightarrow>
            preferred_job_levels (level_click lv form) =
              filter (\<lambda>l. l \<noteq> lv) (preferred_job_levels form) \<and>
            lv \<notin> set (preferred_job_levels (level_click lv form)))"
  using fold_level_click_ok [OF assms] by (simp add: level_click_levels)

theorem job_levels_invariant_witness:
  "distinct (preferred_job_levels (form_init\<lparr>preferred_job_levels := [''entry'', ''mid'']\<rparr>)) \<and>
   set (preferred_job_levels (form_init\<lparr>preferred_job_levels := [''entry'', ''mid'']\<rparr>))
     \<subseteq> set job_levels \<and>
   set [''mid'', ''senior'', ''mid'', ''lead''] \<subseteq> set job_levels \<and>
   preferred_job_levels (fold level_click [''mid'', ''senior'', ''mid'', ''lead'']
      (form_init\<lparr>preferred_job_levels := [''entry'', ''mid'']\<rparr>)) =
     [''entry'', ''senior'', ''mid'', ''lead''] \<and>
   preferred_job_levels
     (level_click ''mid'' (form_init\<lparr>preferred_job_levels := [''entry'', ''mid'']\<rparr>)) =
     [''entry'']"
proof -
  let ?f = "form_init\<lparr>preferred_job_levels := [''entry'', ''mid'']\<rparr>"
  have d: "distinct (preferred_job_levels ?f)"
    by simp
  have s: "set (preferred_job_levels ?f) \<subseteq> set job_levels"
    by (simp add: job_levels_def)
  have c: "set [''mid'', ''senior'', ''mid'', ''lead''] \<subseteq> set job_levels"
    by (simp add: job_levels_def)
  from job_levels_invariant [OF d s c, of "''mid''"] d s c show ?thesis
    by (simp add: level_click_def level_onChange_def)
qed

section \<open>Ranker: the order of the result\<close>

lemma newer_trichotomy: "newer s t \<or> s = t \<or> newer t s"
  by (cases s; cases t) auto

lemma newer_asym: "newer s t \<Longrightarrow> \<not> newer t s"
  by (cases s; cases t) auto

lemma newer_irrefl: "\<not> newer t t"
  by (cases t) auto

lemma newer_trans: "newer s t \<Longrightarrow> newer t u \<Longrightarrow> newer s u"
  by (cases s; cases t; cases u) auto

lemma ranks_before_total: "ranks_before a b \<or> ranks_before b a"
  using newer_trichotomy [of "posted_at (job a)" "posted_at (job b)"]
  by (auto simp: ranks_before_def)

lemma ranks_before_refl: "ranks_before a a"
  by (simp add: ranks_before_def)

lemma ranks_before_trans:
  assumes "ranks_before a b" and "ranks_before b c"
  shows "ranks_before a c"
proof -
  have n: "newer (posted_at (job a)) (posted_at (job b)) \<Longrightarrow>
      newer (posted_at (job b)) (posted_at (job c)) \<Longrightarrow>
      newer (posted_at (job a)) (posted_at (job c))"
    by (rule newer_trans)
  from assms n show ?thesis
    unfolding ranks_before_def by (elim disjE conjE) (auto intro: order_trans)
qed

lemma ranks_before_antisym:
  assumes ab: "ranks_before a b" and ba: "ranks_before b a"
  shows "overall_score (score a) = overall_score (score b) \<and>
         posted_at (job a) = posted_at (job b) \<and> job_id (job a) = job_id (job b)"
proof -
  have sc: "overall_score (score a) = overall_score (score b)"
  proof (rule ccontr)
    assume ne: "overall_score (score a) \<noteq> overall_score (score b)"
    from ab ne have "overall_score (score b) < overall_score (score a)"
      unfolding ranks_before_def by fastforce
    moreover from ba ne have "overall_score (score a) < overall_score (score b)"
      unfolding ranks_before_def by fastforce
    ultimately show False by simp
  qed
  have na: "\<not> newer (posted_at (job a)) (posted_at (job b))"
  proof
    assume n: "newer (posted_at (job a)) (posted_at (job b))"
    then have "\<not> newer (posted_at (job b)) (posted_at (job a))"
      by (rule newer_asym)
    moreover have "posted_at (job b) \<noteq> posted_at (job a)"
      using n newer_irrefl by force
    ultimately show False
      using ba sc unfolding ranks_before_def by simp
  qed
  have nb: "\<not> newer (posted_at (job b)) (posted_at (job a))"
  proof
    assume n: "newer (posted_at (job b)) (posted_at (job a))"
    then have "\<not> newer (posted_at (job a)) (posted_at (job b))"
      by (rule newer_asym)
    moreover have "posted_at (job a) \<noteq> posted_at (job b)"
      using n newer_irrefl by force
    ultimately show False
      using ab sc unfolding ranks_before_def by simp
  qed
  from ab sc na have 1: "posted_at (job a) = posted_at (job b) \<and> job_id (job a) \<le> job_id (job b)"
    unfolding ranks_before_def by simp
  from ba sc nb have 2: "job_id (job b) \<le> job_id (job a)"
    unfolding ranks_before_def by simp
  from sc 1 2 show ?thesis
    by (simp add: order_antisym)
qed

lemma set_insert_ranked: "set (insert_ranked m xs) = insert m (set xs)"
  by (induction xs) auto

lemma mset_insert_ranked: "mset (insert_ranked m xs) = add_mset m (mset xs)"
  by (induction xs) auto

lemma mset_sort_ranked: "mset (sort_ranked ms) = mset ms"
  by (induction ms) (simp_all add: sort_ranked_def mset_insert_ranked)

lemma sorted_insert_ranked:
  "sorted_wrt ranks_before xs \<Longrightarrow> sorted_wrt ranks_before (insert_ranked m xs)"
proof (induction xs)
  case Nil
  then show ?case by simp
next
  case (Cons x xs)
  show ?case
  proof (cases "ranks_before m x")
    case True
    have "\<forall>y \<in> set xs. ranks_before m y"
      using Cons.prems True by (auto intro: ranks_before_trans)
    with True Cons.prems show ?thesis by simp
  next
    case False
    then have "ranks_before x m"
      using ranks_before_total [of m x] by blast
    with False Cons show ?thesis
      by (auto simp: set_insert_ranked)
  qed
qed

lemma sorted_sort_ranked: "sorted_wrt ranks_before (sort_ranked ms)"
  by (induction ms) (simp_all add: sort_ranked_def sorted_insert_ranked)

lemma sorted_wrt_mset_unique:
  assumes "sorted_wrt R xs" and "sorted_wrt R ys" and "mset xs = mset ys"
    and "\<And>a b. a \<in> set xs \<Longrightarrow> b \<in> set xs \<Longrightarrow> R a b \<Longrightarrow> R b a \<Longrightarrow> a = b"
  shows "xs = ys"
  using assms
proof (induction xs arbitrary: ys)
  case Nil
  then show ?case by simp
next
  case (Cons x xs)
  from Cons.prems(3) obtain y ys' where ys: "ys = y # ys'"
    by (cases ys) auto
  have sets: "set (x # xs) = set ys"
    using Cons.prems(3) by (metis set_mset_mset)
  have xy: "x = y"
  proof (rule ccontr)
    assume ne: "x \<noteq> y"
    then have "y \<in> set xs" using sets ys by auto
    then have 1: "R x y" using Cons.prems(1) by simp
    from ne have "x \<in> set ys'" using sets ys by auto
    then have 2: "R y x" using Cons.prems(2) ys by simp
    have "y \<in> set (x # xs)" using sets ys by simp
    with 1 2 Cons.prems(4) [of x y] ne show False by simp
  qed
  have "xs = ys'"
  proof (rule Cons.IH)
    show "sorted_wrt R xs" using Cons.prems(1) by simp
    show "sorted_wrt R ys'" using Cons.prems(2) ys by simp
    show "mset xs = mset ys'" using Cons.prems(3) ys xy by simp
    show "\<And>a b. a \<in> set xs \<Longrightarrow> b \<in> set xs \<Longrightarrow> R a b \<Longrightarrow> R b a \<Longrightarrow> a = b"
      using Cons.prems(4) by simp
  qed
  with xy ys show ?case by simp
qed

lemma sort_ranked_order_independent:
  assumes "mset ms = mset ms'" and "distinct (map (\<lambda>m. job_id (job m)) ms)"
  shows "sort_ranked ms = sort_ranked ms'"
proof (rule sorted_wrt_mset_unique [where R = ranks_before])
  show "sorted_wrt ranks_before (sort_ranked ms)" by (rule sorted_sort_ranked)
  show "sorted_wrt ranks_before (sort_ranked ms')" by (rule sorted_sort_ranked)
  show "mset (sort_ranked ms) = mset (sort_ranked ms')"
    using assms(1) by (simp add: mset_sort_ranked)
next
  fix a b
  assume "a \<in> set (sort_ranked ms)" and "b \<in> set (sort_ranked ms)"
    and "ranks_before a b" and "ranks_before b a"
  then have a: "a \<in> set ms" and b: "b \<in> set ms" and
      ids: "job_id (job a) = job_id (job b)"
    using mset_sort_ranked [of ms] ranks_before_antisym [of a b]
    by (metis set_mset_mset)+
  from assms(2) have "inj_on (\<lambda>m. job_id (job m)) (set ms)"
    by (simp add: distinct_map)
  with a b ids show "a = b"
    by (auto dest: inj_onD)
qed

text \<open>
  C3. The ranking is sorted by overall score descending, then \<open>posted_at\<close> descending, then
  job id ascending; it is the first \<open>max_results\<close> entries of the sorted survivors, all of
  which the full ranking contains; two ranked jobs with the same overall score and the
  same \<open>posted_at\<close> stand in ascending order of their ids; and for survivors with distinct
  ids the ranking does not depend on the order in which they arrive.
\<close>

theorem rank_order:
  "sorted_wrt ranks_before (rank max_results survivors) \<and>
   rank max_results survivors = take max_results (rank (length survivors) survivors) \<and>
   mset (rank (length survivors) survivors) = mset survivors \<and>
   (\<forall>i j. i < j \<and> j < length (rank max_results survivors) \<and>
      overall_score (score (rank max_results survivors ! i)) =
        overall_score (score (rank max_results survivors ! j)) \<and>
      posted_at (job (rank max_results survivors ! i)) =
        posted_at (job (rank max_results survivors ! j)) \<longrightarrow>
      job_id (job (rank max_results survivors ! i)) \<le>
        job_id (job (rank max_results survivors ! j))) \<and>
   (distinct (map (\<lambda>m. job_id (job m)) survivors) \<and> mset arrivals = mset survivors \<longrightarrow>
      rank max_results arrivals = rank max_results survivors)"
proof -
  let ?r = "rank max_results survivors"
  have len: "length (sort_ranked survivors) = length survivors"
    using mset_sort_ranked [of survivors] by (metis size_mset)
  have s: "sorted_wrt ranks_before ?r"
    by (simp add: rank_def sorted_sort_ranked)
  have full: "rank (length survivors) survivors = sort_ranked survivors"
    using len by (simp add: rank_def)
  have pre: "?r = take max_results (rank (length survivors) survivors)"
    by (simp add: full) (simp add: rank_def)
  have all: "mset (rank (length survivors) survivors) = mset survivors"
    by (simp add: full mset_sort_ranked)
  have ties: "job_id (job (?r ! i)) \<le> job_id (job (?r ! j))"
    if "i < j" "j < length ?r"
      "overall_score (score (?r ! i)) = overall_score (score (?r ! j))"
      "posted_at (job (?r ! i)) = posted_at (job (?r ! j))" for i j
  proof -
    from s that(1,2) have "ranks_before (?r ! i) (?r ! j)"
      by (simp add: sorted_wrt_iff_nth_less)
    with that(3,4) show ?thesis
      using newer_irrefl by (auto simp: ranks_before_def)
  qed
  have indep: "rank max_results arrivals = ?r"
    if "distinct (map (\<lambda>m. job_id (job m)) survivors)" "mset arrivals = mset survivors"
    using sort_ranked_order_independent [of survivors arrivals] that
    by (simp add: rank_def)
  from s pre all ties indep show ?thesis
    by blast
qed

theorem rank_order_witness:
  "distinct (map (\<lambda>m. job_id (job m))
     [bare_match ''b'' (1 / 2) (Some 10), bare_match ''a'' (1 / 2) (Some 10),
      bare_match ''c'' (2 / 3) None, bare_match ''d'' (1 / 2) (Some 20)]) \<and>
   mset [bare_match ''d'' (1 / 2) (Some 20), bare_match ''c'' (2 / 3) None,
         bare_match ''a'' (1 / 2) (Some 10), bare_match ''b'' (1 / 2) (Some 10)] =
   mset [bare_match ''b'' (1 / 2) (Some 10), bare_match ''a'' (1 / 2) (Some 10),
         bare_match ''c'' (2 / 3) None, bare_match ''d'' (1 / 2) (Some 20)] \<and>
   rank 3 [bare_match ''b'' (1 / 2) (Some 10), bare_match ''a'' (1 / 2) (Some 10),
           bare_match ''c'' (2 / 3) None, bare_match ''d'' (1 / 2) (Some 20)] =
     [bare_match ''c'' (2 / 3) None, bare_match ''d'' (1 / 2) (Some 20),
      bare_match ''a'' (1 / 2) (Some 10)] \<and>
   rank 3 [bare_match ''d'' (1 / 2) (Some 20), bare_match ''c'' (2 / 3) None,
           bare_match ''a'' (1 / 2) (Some 10), bare_match ''b'' (1 / 2) (Some 10)] =
     [bare_match ''c'' (2 / 3) None, bare_match ''d'' (1 / 2) (Some 20),
      bare_match ''a'' (1 / 2) (Some 10)]"
  using rank_order [of 3 "[bare_match ''b'' (1 / 2) (Some 10), bare_match ''a'' (1 / 2) (Some 10),
           bare_match ''c'' (2 / 3) None, bare_match ''d'' (1 / 2) (Some 20)]"
      "[bare_match ''d'' (1 / 2) (Some 20), bare_match ''c'' (2 / 3) None,
           bare_match ''a'' (1 / 2) (Some 10), bare_match ''b'' (1 / 2) (Some 10)]"]
  by (simp add: rank_def sort_ranked_def ranks_before_def bare_match_def)


section \<open>Aggregation: the overall score\<close>

lemma weigh_sums:
  "weigh w sc ds (num, den) =
     (num + (\<Sum>(d, s) \<leftarrow> List.map_filter (\<lambda>d. map_option (Pair d) (sc d)) ds. w d * s),
      den + (\<Sum>(d, s) \<leftarrow> List.map_filter (\<lambda>d. map_option (Pair d) (sc d)) ds. w d))"
  by (induction ds arbitrary: num den) (auto split: option.splits)

lemma weighted_sum_bounds:
  assumes "\<forall>(d, s) \<in> set ps. 0 \<le> w d \<and> 0 \<le> s \<and> s \<le> (1::rat)"
  shows "0 \<le> (\<Sum>(d, s) \<leftarrow> ps. w d * s) \<and> (\<Sum>(d, s) \<leftarrow> ps. w d * s) \<le> (\<Sum>(d, s) \<leftarrow> ps. w d) "
  using assms
proof (induction ps)
  case Nil
  then show ?case by simp
next
  case (Cons p ps)
  obtain d s where p: "p = (d, s)" by (cases p)
  from Cons.prems p have b: "0 \<le> w d" "0 \<le> s" "s \<le> 1" by auto
  then have "0 \<le> w d * s" by simp
  moreover from b have "w d * s \<le> w d" by (simp add: mult_left_le)
  moreover from Cons have "0 \<le> (\<Sum>(d, s) \<leftarrow> ps. w d * s) \<and> (\<Sum>(d, s) \<leftarrow> ps. w d * s) \<le> (\<Sum>(d, s) \<leftarrow> ps. w d)"
    by simp
  ultimately show ?case using p by simp
qed

lemma computable_set: "(d, s) \<in> set (computable sc) \<Longrightarrow> sc d = Some s"
  by (auto simp: computable_def List.map_filter_def)

lemma weigh_ignores_absent:
  "sc d = None \<Longrightarrow> weigh (w(d := x)) sc ds acc = weigh w sc ds acc"
  by (induction w sc ds acc rule: weigh.induct) (auto split: option.splits)

text \<open>
  C4. With non-negative weights and dimension scores in \<open>[0,1]\<close>, aggregation produces a
  score exactly when the weights of the computable dimensions have a positive sum; its
  overall score is then the weighted sum of the computable dimensions' scores divided by
  the sum of their weights, and lies in \<open>[0,1]\<close>. A dimension that is not computable
  contributes to neither sum: the result does not depend on its weight.
\<close>

theorem overall_score_normalised:
  assumes "\<forall>d. 0 \<le> w d" and "\<forall>d s. sc d = Some s \<longrightarrow> 0 \<le> s \<and> s \<le> 1"
  shows "(case aggregate w sc matching missing of
            None \<Rightarrow> (\<Sum>(d, s) \<leftarrow> computable sc. w d) = 0
          | Some r \<Rightarrow>
              0 < (\<Sum>(d, s) \<leftarrow> computable sc. w d) \<and>
              overall_score r =
                (\<Sum>(d, s) \<leftarrow> computable sc. w d * s) / (\<Sum>(d, s) \<leftarrow> computable sc. w d) \<and>
              0 \<le> overall_score r \<and> overall_score r \<le> 1) \<and>
         (sc d = None \<longrightarrow>
            aggregate (w(d := x)) sc matching missing = aggregate w sc matching missing)"
proof -
  let ?num = "\<Sum>(d, s) \<leftarrow> computable sc. w d * s"
  let ?den = "\<Sum>(d, s) \<leftarrow> computable sc. w d"
  have w: "weigh w sc dimensions (0, 0) = (?num, ?den)"
    by (simp add: weigh_sums computable_def)
  have "\<forall>(d, s) \<in> set (computable sc). 0 \<le> w d \<and> 0 \<le> s \<and> s \<le> 1"
    using assms computable_set by fastforce
  then have b: "0 \<le> ?num \<and> ?num \<le> ?den"
    by (rule weighted_sum_bounds)
  have first: "(case aggregate w sc matching missing of
            None \<Rightarrow> ?den = 0
          | Some r \<Rightarrow> 0 < ?den \<and> overall_score r = ?num / ?den \<and>
              0 \<le> overall_score r \<and> overall_score r \<le> 1)"
  proof (cases "?den = 0")
    case True
    then show ?thesis by (simp add: aggregate_def w)
  next
    case False
    with b have pos: "0 < ?den" by simp
    with b have "0 \<le> ?num / ?den" "?num / ?den \<le> 1" by simp_all
    with False pos show ?thesis by (simp add: aggregate_def w)
  qed
  have second: "sc d = None \<longrightarrow>
      aggregate (w(d := x)) sc matching missing = aggregate w sc matching missing"
    by (simp add: aggregate_def weigh_ignores_absent)
  from first second show ?thesis by blast
qed

theorem overall_score_normalised_witness:
  "list_all (\<lambda>d. 0 \<le> (1::rat)) dimensions \<and>
   list_all (\<lambda>d. case ((\<lambda>d. None)(Skills := Some (2 / 3), Level := Some 1)) d of
                None \<Rightarrow> True | Some s \<Rightarrow> 0 \<le> s \<and> s \<le> (1::rat)) dimensions \<and>
   map_option overall_score
     (aggregate (\<lambda>d. 1) ((\<lambda>d. None)(Skills := Some (2 / 3), Level := Some 1)) [] []) =
     Some (5 / 6) \<and>
   aggregate ((\<lambda>d. 1)(Salary := 7)) ((\<lambda>d. None)(Skills := Some (2 / 3), Level := Some 1)) [] [] =
     aggregate (\<lambda>d. 1) ((\<lambda>d. None)(Skills := Some (2 / 3), Level := Some 1)) [] []"
  using overall_score_normalised [of "\<lambda>d. 1" "(\<lambda>d. None)(Skills := Some (2 / 3), Level := Some 1)"
      "[]" "[]" Salary 7]
  by (simp add: aggregate_def dimensions_def)

end
